theory Spec2Isabelle
  imports Main "HOL-Library.Word"
begin

section \<open>Strings, backend responses, requests and effects\<close>

text \<open>
  A JavaScript string is a sequence of UTF-16 code units. Values that arrive at run time
  (ids, user input, error codes) are \<open>jsstring\<close>s; the literals of the source that are
  only shown or logged (toast texts, console prefixes, table and column names) are HOL
  strings, and \<open>js\<close> turns an ASCII literal of the source into the JavaScript string it
  denotes where the code compares it with a run-time value.
\<close>

type_synonym code_unit = "16 word"

type_synonym jsstring = "code_unit list"

definition js :: "string \<Rightarrow> jsstring" where
  "js s = map (\<lambda>c. of_nat (of_char c)) s"

text \<open>
  \<open>String.prototype.trim\<close> (ECMAScript): strips WhiteSpace and LineTerminator code
  points from both ends. These are TAB, LF, VT, FF, CR, SPACE, NBSP, U+1680,
  U+2000..U+200A, U+2028, U+2029, U+202F, U+205F, U+3000 and U+FEFF.
\<close>

definition is_js_whitespace :: "code_unit \<Rightarrow> bool" where
  "is_js_whitespace c =
     (c \<in> {0x9, 0xA, 0xB, 0xC, 0xD, 0x20, 0xA0, 0x1680, 0x2028, 0x2029, 0x202F, 0x205F,
            0x3000, 0xFEFF}
      \<or> (0x2000 \<le> c \<and> c \<le> 0x200A))"

definition trim :: "jsstring \<Rightarrow> jsstring" where
  "trim s = rev (dropWhile is_js_whitespace (rev (dropWhile is_js_whitespace s)))"

text \<open>\<open>String.prototype.includes\<close>: the argument occurs as a contiguous substring.\<close>

fun js_includes :: "jsstring \<Rightarrow> jsstring \<Rightarrow> bool" where
  "js_includes [] t = (t = [])"
| "js_includes (x # xs) t = (take (length t) (x # xs) = t \<or> js_includes xs t)"

text \<open>JavaScript truthiness of a string and of a \<open>string | null\<close>.\<close>

definition truthy :: "jsstring \<Rightarrow> bool" where
  "truthy s = (s \<noteq> [])"

definition truthy_opt :: "jsstring option \<Rightarrow> bool" where
  "truthy_opt v = (case v of None \<Rightarrow> False | Some s \<Rightarrow> truthy s)"

text \<open>
  The error object of a failed backend call (\<open>PostgrestError\<close>); the source reads its
  \<open>code\<close> and logs the whole object.
\<close>

record pg_error =
  code :: jsstring
  message :: jsstring

text \<open>
  What \<open>const { data, error } = await supabase...\<close> destructures: the client library's
  response is a discriminated union, either an error (and no data) or the data (and no
  error). The source tests \<open>error\<close> first in every handler.
\<close>

datatype 'a response = Failure pg_error | Success 'a

text \<open>
  A declarative read, as the query builder assembles it: \<open>.from(table).select(columns)\<close>,
  the \<open>.eq(column, value)\<close> filters in call order, the \<open>.order(column, {ascending})\<close>
  clause if any, and whether \<open>.single()\<close> was called.
\<close>

record query =
  table :: string
  columns :: string
  eq_filters :: "(string \<times> jsstring) list"
  order_by :: "(string \<times> bool) option"
  single_row :: bool

text \<open>A request to the backend: a read, or \<open>.from(table).insert({column: value, ...})\<close>.\<close>

datatype request = Select query | Insert string "(string \<times> jsstring) list"

text \<open>
  What a handler does besides updating the component's state, in the order it does it:
  the requests it sends, \<open>console.error(prefix, error)\<close>, \<open>toast.error(text)\<close> and
  \<open>toast.success(text)\<close>.
\<close>

datatype effect =
  Request request
| ConsoleError string pg_error
| ToastError string
| ToastSuccess string

fun is_request :: "effect \<Rightarrow> bool" where
  "is_request (Request _) = True"
| "is_request _ = False"

fun is_console :: "effect \<Rightarrow> bool" where
  "is_console (ConsoleError _ _) = True"
| "is_console _ = False"

fun is_toast :: "effect \<Rightarrow> bool" where
  "is_toast (ToastError _) = True"
| "is_toast (ToastSuccess _) = True"
| "is_toast _ = False"

definition requests :: "effect list \<Rightarrow> effect list" where
  "requests es = filter is_request es"

definition console_logs :: "effect list \<Rightarrow> effect list" where
  "console_logs es = filter is_console es"

definition toasts :: "effect list \<Rightarrow> effect list" where
  "toasts es = filter is_toast es"

text \<open>
  The backend is outside the program: \<open>supabase\<close> is a parameter of every handler, a
  function from the backend's state and a request to the response and the backend's next
  state. A handler runs from the event that starts it to the end of its last
  continuation; the interleaving of two handlers is not modelled.
\<close>

type_synonym ('db, 'a) backend = "'db \<Rightarrow> request \<Rightarrow> 'a response \<times> 'db"

section \<open>The Messages page (src/pages/Messages.tsx)\<close>

text \<open>
  The rows as the page's types declare them, with the columns the handlers read. A
  \<open>Message\<close> is a row of \<open>messages\<close> together with its joined \<open>sender\<close>; the
  payload of a change notification is the bare row. Field names are the source's,
  prefixed where two row types share one (\<open>id\<close>, \<open>messages\<close>): \<open>user.id\<close>
  is \<open>auth_id\<close>, \<open>message.id\<close> is \<open>message_id\<close>, \<open>conversation.id\<close> is
  \<open>conversation_key\<close> and \<open>conversation.messages\<close> is \<open>preview_messages\<close>.
  \<open>created_at\<close> and \<open>updated_at\<close> are timestamps; the page only displays them, so they
  are kept as the instants they denote. Every message belongs to a conversation: its
  \<open>conversation_id\<close> is a string, never null.
\<close>

record auth_user =
  auth_id :: jsstring

record sender_info =
  full_name :: jsstring
  avatar_url :: "jsstring option"

record message_row =
  message_id :: jsstring
  conversation_id :: jsstring
  sender_id :: jsstring
  content :: jsstring
  created_at :: int

record message = message_row +
  sender :: sender_info

record participant_profile = sender_info +
  role :: jsstring

record participant =
  user_id :: jsstring
  profiles :: participant_profile

record conversation =
  conversation_key :: jsstring
  updated_at :: int
  conversation_participants :: "participant list option"
  preview_messages :: "message list"

text \<open>The component's \<open>useState\<close> cells.\<close>

record messages_page =
  conversations :: "conversation list"
  selectedConversation :: "jsstring option"
  messages :: "message list"
  newMessage :: jsstring
  loading :: bool

definition initial_messages_page :: messages_page where
  "initial_messages_page =
     \<lparr>conversations = [], selectedConversation = None, messages = [], newMessage = [],
      loading = True\<rparr>"

definition message_columns :: string where
  "message_columns = ''*, sender:profiles!messages_sender_id_fkey(full_name, avatar_url)''"

definition fetchMessage_query :: "jsstring \<Rightarrow> query" where
  "fetchMessage_query messageId =
     \<lparr>table = ''messages'', columns = message_columns,
      eq_filters = [(''id'', messageId)], order_by = None, single_row = True\<rparr>"

definition fetchMessage ::
  "('db, message) backend \<Rightarrow> jsstring \<Rightarrow> 'db \<Rightarrow> messages_page
     \<Rightarrow> 'db \<times> messages_page \<times> effect list" where
  "fetchMessage supabase messageId db s =
     (let rq = Select (fetchMessage_query messageId) in
      case supabase db rq of
        (Failure e, db') \<Rightarrow> (db', s, [Request rq, ConsoleError ''Error fetching message:'' e])
      | (Success d, db') \<Rightarrow> (db', s\<lparr>messages := messages s @ [d]\<rparr>, [Request rq]))"

text \<open>
  The callback of the \<open>postgres_changes\<close> subscription on INSERT into \<open>messages\<close>
  (lines 70 to 76); \<open>payload\<close> is \<open>payload.new\<close>, the inserted row. The effect that
  subscribes depends on \<open>selectedConversation\<close>, so the callback compares with the
  current selection.
\<close>

definition messagesChannel_handler ::
  "('db, message) backend \<Rightarrow> message_row \<Rightarrow> 'db \<Rightarrow> messages_page
     \<Rightarrow> 'db \<times> messages_page \<times> effect list" where
  "messagesChannel_handler supabase payload db s =
     (if Some (conversation_id payload) = selectedConversation s
      then fetchMessage supabase (message_id payload) db s
      else (db, s, []))"

definition conversation_columns :: string where
  "conversation_columns =
     ''*, conversation_participants(user_id, profiles(full_name, avatar_url, role)), messages(id, content, created_at, sender:profiles!messages_sender_id_fkey(full_name, avatar_url))''"

definition fetchConversations_query :: query where
  "fetchConversations_query =
     \<lparr>table = ''conversations'', columns = conversation_columns,
      eq_filters = [], order_by = Some (''updated_at'', False), single_row = False\<rparr>"

text \<open>
  \<open>conv.conversation_participants?.some(p => p.user_id === user.id)\<close>: a missing
  participant list gives \<open>undefined\<close>, which \<open>filter\<close> reads as false.
\<close>

definition is_participant :: "auth_user \<Rightarrow> conversation \<Rightarrow> bool" where
  "is_participant user conv =
     (case conversation_participants conv of
        None \<Rightarrow> False
      | Some ps \<Rightarrow> list_ex (\<lambda>p. user_id p = auth_id user) ps)"

definition fetchConversations ::
  "auth_user option \<Rightarrow> ('db, conversation list) backend \<Rightarrow> 'db \<Rightarrow> messages_page
     \<Rightarrow> 'db \<times> messages_page \<times> effect list" where
  "fetchConversations user supabase db s =
     (case user of
        None \<Rightarrow> (db, s, [])
      | Some u \<Rightarrow>
          (let rq = Select fetchConversations_query in
           case supabase db rq of
             (Failure e, db') \<Rightarrow>
               (db', s, [Request rq, ConsoleError ''Error fetching conversations:'' e,
                         ToastError ''Failed to load conversations''])
           | (Success d, db') \<Rightarrow>
               (db', s\<lparr>conversations := filter (is_participant u) d, loading := False\<rparr>,
                [Request rq])))"

definition loadMessages_query :: "jsstring \<Rightarrow> query" where
  "loadMessages_query conversationId =
     \<lparr>table = ''messages'', columns = message_columns,
      eq_filters = [(''conversation_id'', conversationId)],
      order_by = Some (''created_at'', True), single_row = False\<rparr>"

definition loadMessages ::
  "('db, message list) backend \<Rightarrow> jsstring \<Rightarrow> 'db \<Rightarrow> messages_page
     \<Rightarrow> 'db \<times> messages_page \<times> effect list" where
  "loadMessages supabase conversationId db s =
     (let rq = Select (loadMessages_query conversationId) in
      case supabase db rq of
        (Failure e, db') \<Rightarrow>
          (db', s, [Request rq, ConsoleError ''Error loading messages:'' e,
                    ToastError ''Failed to load messages''])
      | (Success d, db') \<Rightarrow> (db', s\<lparr>messages := d\<rparr>, [Request rq]))"

definition sendMessage_request :: "jsstring \<Rightarrow> jsstring \<Rightarrow> jsstring \<Rightarrow> request" where
  "sendMessage_request conv uid text_in =
     Insert ''messages''
       [(''conversation_id'', conv), (''sender_id'', uid), (''content'', trim text_in)]"

definition sendMessage ::
  "auth_user option \<Rightarrow> ('db, unit) backend \<Rightarrow> 'db \<Rightarrow> messages_page
     \<Rightarrow> 'db \<times> messages_page \<times> effect list" where
  "sendMessage user supabase db s =
     (if \<not> truthy (trim (newMessage s)) \<or> \<not> truthy_opt (selectedConversation s)
         \<or> user = None
      then (db, s, [])
      else
        (case (user, selectedConversation s) of
           (Some u, Some conv) \<Rightarrow>
             (let rq = sendMessage_request conv (auth_id u) (newMessage s) in
              case supabase db rq of
                (Failure e, db') \<Rightarrow>
                  (db', s, [Request rq, ConsoleError ''Error sending message:'' e,
                            ToastError ''Failed to send message''])
              | (Success _, db') \<Rightarrow> (db', s\<lparr>newMessage := []\<rparr>, [Request rq]))
         | _ \<Rightarrow> (db, s, [])))"

definition selectConversation ::
  "('db, message list) backend \<Rightarrow> jsstring \<Rightarrow> 'db \<Rightarrow> messages_page
     \<Rightarrow> 'db \<times> messages_page \<times> effect list" where
  "selectConversation supabase conversationId db s =
     loadMessages supabase conversationId db (s\<lparr>selectedConversation := Some conversationId\<rparr>)"

text \<open>
  What the page renders: the conversation list (a placeholder while \<open>loading\<close>), and the
  message list of the right-hand card, which is drawn only for a signed-in user and a
  truthy \<open>selectedConversation\<close>.
\<close>

definition shown_conversations :: "auth_user option \<Rightarrow> messages_page \<Rightarrow> conversation list" where
  "shown_conversations user s =
     (if user = None then [] else if loading s then [] else conversations s)"

definition visible_messages :: "auth_user option \<Rightarrow> messages_page \<Rightarrow> message list" where
  "visible_messages user s =
     (if user = None then []
      else if truthy_opt (selectedConversation s) then messages s else [])"

section \<open>The Browse page (first component of unnamed/part_000)\<close>

text \<open>
  Rows of \<open>profiles\<close> and \<open>teams\<close> with the columns the handlers and the search
  filter read (the cards show further columns, which no function below looks at);
  \<open>bio\<close>, \<open>location\<close> and a team's \<open>description\<close> are nullable (the source reads
  them with \<open>?.\<close>). \<open>profile.id\<close>, \<open>profile.full_name\<close>, \<open>team.id\<close>, \<open>team.name\<close>,
  \<open>team.description\<close> and \<open>team.created_at\<close> carry a prefix.
\<close>

record profile =
  profile_id :: jsstring
  profile_full_name :: jsstring
  bio :: "jsstring option"
  location :: "jsstring option"
  xp :: int
  followers_count :: int

record team =
  team_id :: jsstring
  team_name :: jsstring
  team_description :: "jsstring option"
  team_created_at :: int

record browse_page =
  coders :: "profile list"
  teams :: "team list"
  browse_loading :: bool
  searchTerm :: jsstring
  skillFilter :: jsstring

definition initial_browse_page :: browse_page where
  "initial_browse_page =
     \<lparr>coders = [], teams = [], browse_loading = True, searchTerm = [],
      skillFilter = js ''all''\<rparr>"

definition fetchCoders_query :: query where
  "fetchCoders_query =
     \<lparr>table = ''profiles'', columns = ''*, user_skills(skills(name, category))'',
      eq_filters = [(''role'', js ''coder'')], order_by = Some (''xp'', False),
      single_row = False\<rparr>"

definition fetchCoders ::
  "('db, profile list) backend \<Rightarrow> 'db \<Rightarrow> browse_page \<Rightarrow> 'db \<times> browse_page \<times> effect list" where
  "fetchCoders supabase db s =
     (let rq = Select fetchCoders_query in
      case supabase db rq of
        (Failure e, db') \<Rightarrow> (db', s, [Request rq, ConsoleError ''Error fetching coders:'' e])
      | (Success d, db') \<Rightarrow> (db', s\<lparr>coders := d\<rparr>, [Request rq]))"

definition fetchTeams_query :: query where
  "fetchTeams_query =
     \<lparr>table = ''teams'',
      columns = ''*, owner:profiles!teams_owner_id_fkey(*), team_members(role, profiles(*))'',
      eq_filters = [], order_by = Some (''created_at'', False), single_row = False\<rparr>"

definition fetchTeams ::
  "('db, team list) backend \<Rightarrow> 'db \<Rightarrow> browse_page \<Rightarrow> 'db \<times> browse_page \<times> effect list" where
  "fetchTeams supabase db s =
     (let rq = Select fetchTeams_query in
      case supabase db rq of
        (Failure e, db') \<Rightarrow>
          (db', s\<lparr>browse_loading := False\<rparr>,
           [Request rq, ConsoleError ''Error fetching teams:'' e])
      | (Success d, db') \<Rightarrow> (db', s\<lparr>teams := d, browse_loading := False\<rparr>, [Request rq]))"

definition handleFollow_request :: "jsstring \<Rightarrow> jsstring \<Rightarrow> request" where
  "handleFollow_request uid profileId =
     Insert ''follows'' [(''follower_id'', uid), (''following_id'', profileId)]"

definition handleFollow ::
  "auth_user option \<Rightarrow> ('db, unit) backend \<Rightarrow> ('db, profile list) backend \<Rightarrow> jsstring
     \<Rightarrow> 'db \<Rightarrow> browse_page \<Rightarrow> 'db \<times> browse_page \<times> effect list" where
  "handleFollow user supabase_insert supabase profileId db s =
     (case user of
        None \<Rightarrow> (db, s, [])
      | Some u \<Rightarrow>
          (let rq = handleFollow_request (auth_id u) profileId in
           case supabase_insert db rq of
             (Failure e, db') \<Rightarrow>
               (db', s, [Request rq, ConsoleError ''Error following user:'' e])
           | (Success _, db') \<Rightarrow>
               (case fetchCoders supabase db' s of
                  (db'', s', es) \<Rightarrow> (db'', s', Request rq # es))))"

text \<open>
  The two filtered lists of cards (lines 289 to 295 and 310 to 315).
  \<open>String.prototype.toLowerCase\<close> is a parameter: the page applies it to both sides of
  every comparison. A null \<open>bio\<close>, \<open>location\<close> or \<open>description\<close> makes its disjunct
  \<open>undefined\<close>, which \<open>filter\<close> reads as false.
\<close>

definition coder_matches :: "(jsstring \<Rightarrow> jsstring) \<Rightarrow> jsstring \<Rightarrow> profile \<Rightarrow> bool" where
  "coder_matches toLowerCase term coder =
     (term = []
      \<or> js_includes (toLowerCase (profile_full_name coder)) (toLowerCase term)
      \<or> (case bio coder of
            None \<Rightarrow> False
          | Some b \<Rightarrow> js_includes (toLowerCase b) (toLowerCase term))
      \<or> (case location coder of
            None \<Rightarrow> False
          | Some l \<Rightarrow> js_includes (toLowerCase l) (toLowerCase term)))"

definition team_matches :: "(jsstring \<Rightarrow> jsstring) \<Rightarrow> jsstring \<Rightarrow> team \<Rightarrow> bool" where
  "team_matches toLowerCase term t =
     (term = []
      \<or> js_includes (toLowerCase (team_name t)) (toLowerCase term)
      \<or> (case team_description t of
            None \<Rightarrow> False
          | Some d \<Rightarrow> js_includes (toLowerCase d) (toLowerCase term)))"

definition displayed_coders :: "(jsstring \<Rightarrow> jsstring) \<Rightarrow> browse_page \<Rightarrow> profile list" where
  "displayed_coders toLowerCase s =
     (if browse_loading s then []
      else filter (coder_matches toLowerCase (searchTerm s)) (coders s))"

definition displayed_teams :: "(jsstring \<Rightarrow> jsstring) \<Rightarrow> browse_page \<Rightarrow> team list" where
  "displayed_teams toLowerCase s =
     (if browse_loading s then []
      else filter (team_matches toLowerCase (searchTerm s)) (teams s))"

section \<open>The Projects page (second component of unnamed/part_000)\<close>

text \<open>
  \<open>fetchProjects\<close> is the same text in src/pages/Projects.tsx, which lacks the
  application handlers. \<open>project.id\<close> and \<open>project.created_at\<close> carry a prefix; the
  rows of the \<open>applications\<close> cell are \<open>any\<close> in the source and an \<open>application\<close>
  with the fields the page shows here.
\<close>

record project =
  project_id :: jsstring
  title :: jsstring
  description :: jsstring
  status :: jsstring
  hirer_id :: jsstring
  project_created_at :: int
  budget_min :: "int option"
  budget_max :: "int option"
  timeline :: "jsstring option"

record application =
  application_id :: jsstring
  application_message :: jsstring
  application_status :: jsstring
  application_created_at :: int

record projects_page =
  projects :: "project list"
  myProjects :: "project list"
  applications :: "application list"
  projects_loading :: bool
  isCreateDialogOpen :: bool

definition initial_projects_page :: projects_page where
  "initial_projects_page =
     \<lparr>projects = [], myProjects = [], applications = [], projects_loading = True,
      isCreateDialogOpen = False\<rparr>"

definition project_columns :: string where
  "project_columns =
     ''*, project_skills(skills(name, category)), hirer:profiles!projects_hirer_id_fkey(full_name, avatar_url)''"

definition fetchProjects_query :: query where
  "fetchProjects_query =
     \<lparr>table = ''projects'', columns = project_columns,
      eq_filters = [(''status'', js ''open'')], order_by = Some (''created_at'', False),
      single_row = False\<rparr>"

definition fetchProjects ::
  "('db, project list) backend \<Rightarrow> 'db \<Rightarrow> projects_page
     \<Rightarrow> 'db \<times> projects_page \<times> effect list" where
  "fetchProjects supabase db s =
     (let rq = Select fetchProjects_query in
      case supabase db rq of
        (Failure e, db') \<Rightarrow>
          (db', s, [Request rq, ConsoleError ''Error fetching projects:'' e,
                    ToastError ''Failed to load projects''])
      | (Success d, db') \<Rightarrow>
          (db', s\<lparr>projects := d, projects_loading := False\<rparr>, [Request rq]))"

definition fetchMyProjects_query :: "jsstring \<Rightarrow> query" where
  "fetchMyProjects_query uid =
     \<lparr>table = ''projects'', columns = project_columns,
      eq_filters = [(''hirer_id'', uid)], order_by = Some (''created_at'', False),
      single_row = False\<rparr>"

definition fetchMyProjects ::
  "auth_user option \<Rightarrow> ('db, project list) backend \<Rightarrow> 'db \<Rightarrow> projects_page
     \<Rightarrow> 'db \<times> projects_page \<times> effect list" where
  "fetchMyProjects user supabase db s =
     (case user of
        None \<Rightarrow> (db, s, [])
      | Some u \<Rightarrow>
          (let rq = Select (fetchMyProjects_query (auth_id u)) in
           case supabase db rq of
             (Failure e, db') \<Rightarrow>
               (db', s, [Request rq, ConsoleError ''Error fetching my projects:'' e])
           | (Success d, db') \<Rightarrow> (db', s\<lparr>myProjects := d\<rparr>, [Request rq])))"

definition handleApplyToProject_request :: "jsstring \<Rightarrow> jsstring \<Rightarrow> request" where
  "handleApplyToProject_request projectId uid =
     Insert ''project_applications''
       [(''project_id'', projectId), (''coder_id'', uid),
        (''message'', js ''I would like to apply for this project.'')]"

definition handleApplyToProject ::
  "auth_user option \<Rightarrow> ('db, unit) backend \<Rightarrow> ('db, project list) backend \<Rightarrow> jsstring
     \<Rightarrow> 'db \<Rightarrow> projects_page \<Rightarrow> 'db \<times> projects_page \<times> effect list" where
  "handleApplyToProject user supabase_insert supabase projectId db s =
     (case user of
        None \<Rightarrow> (db, s, [])
      | Some u \<Rightarrow>
          (let rq = handleApplyToProject_request projectId (auth_id u) in
           case supabase_insert db rq of
             (Failure e, db') \<Rightarrow>
               (if code e = js ''23505''
                then (db', s, [Request rq, ToastError ''You have already applied to this project''])
                else (db', s, [Request rq, ToastError ''Failed to apply to project'']))
           | (Success _, db') \<Rightarrow>
               (case fetchProjects supabase db' s of
                  (db'', s', es) \<Rightarrow>
                    (db'', s',
                     [Request rq, ToastSuccess ''Application submitted successfully''] @ es))))"

text \<open>
  The card's button (lines 498 to 507): it applies only for a profile whose role is
  \<open>coder\<close>; \<open>profile_role\<close> is \<open>profile?.role\<close>, absent while no profile is loaded.
\<close>

definition apply_button_click ::
  "jsstring option \<Rightarrow> auth_user option \<Rightarrow> ('db, unit) backend \<Rightarrow> ('db, project list) backend
     \<Rightarrow> jsstring \<Rightarrow> 'db \<Rightarrow> projects_page \<Rightarrow> 'db \<times> projects_page \<times> effect list" where
  "apply_button_click profile_role user supabase_insert supabase projectId db s =
     (if profile_role = Some (js ''coder'')
      then handleApplyToProject user supabase_insert supabase projectId db s
      else (db, s, []))"

definition fetchMyApplications_query :: "jsstring \<Rightarrow> query" where
  "fetchMyApplications_query uid =
     \<lparr>table = ''project_applications'',
      columns = ''*, projects(title, hirer:profiles!projects_hirer_id_fkey(full_name))'',
      eq_filters = [(''coder_id'', uid)], order_by = Some (''created_at'', False),
      single_row = False\<rparr>"

definition fetchMyApplications ::
  "auth_user option \<Rightarrow> ('db, application list) backend \<Rightarrow> 'db \<Rightarrow> projects_page
     \<Rightarrow> 'db \<times> projects_page \<times> effect list" where
  "fetchMyApplications user supabase db s =
     (case user of
        None \<Rightarrow> (db, s, [])
      | Some u \<Rightarrow>
          (let rq = Select (fetchMyApplications_query (auth_id u)) in
           case supabase db rq of
             (Failure e, db') \<Rightarrow>
               (db', s, [Request rq, ConsoleError ''Error fetching applications:'' e])
           | (Success d, db') \<Rightarrow> (db', s\<lparr>applications := d\<rparr>, [Request rq])))"

definition fetchProjectApplications_query :: "jsstring \<Rightarrow> query" where
  "fetchProjectApplications_query projectId =
     \<lparr>table = ''project_applications'',
      columns = ''*, coder:profiles!project_applications_coder_id_fkey(*)'',
      eq_filters = [(''project_id'', projectId)], order_by = Some (''created_at'', False),
      single_row = False\<rparr>"

text \<open>The one handler that returns a value: the rows, or \<open>[]\<close> on failure.\<close>

definition fetchProjectApplications ::
  "('db, application list) backend \<Rightarrow> jsstring \<Rightarrow> 'db
     \<Rightarrow> 'db \<times> application list \<times> effect list" where
  "fetchProjectApplications supabase projectId db =
     (let rq = Select (fetchProjectApplications_query projectId) in
      case supabase db rq of
        (Failure e, db') \<Rightarrow>
          (db', [], [Request rq, ConsoleError ''Error fetching project applications:'' e])
      | (Success d, db') \<Rightarrow> (db', d, [Request rq]))"

text \<open>
  The cards of the Browse Projects tab: skeletons while loading, then one card per
  element of \<open>projects\<close>. The page as a whole is drawn only for a signed-in user.
\<close>

definition browse_projects_tab :: "auth_user option \<Rightarrow> projects_page \<Rightarrow> project list" where
  "browse_projects_tab user s =
     (if user = None then [] else if projects_loading s then [] else projects s)"

section \<open>The backend's side of the requests\<close>

text \<open>
  What a read means in the backend's query language (PostgREST, which the client
  library's builder targets), over the rows of one table: an \<open>.eq(column, value)\<close>
  filter keeps the rows whose column has that value, and \<open>.order(column, {ascending})\<close>
  sorts what is kept by that column. \<open>col\<close> reads a text column of a row and
  \<open>sort_col\<close> a column that rows are ordered by.
\<close>

definition run_select ::
  "(string \<Rightarrow> 'row \<Rightarrow> jsstring option) \<Rightarrow> (string \<Rightarrow> 'row \<Rightarrow> int) \<Rightarrow> query \<Rightarrow> 'row list
     \<Rightarrow> 'row list" where
  "run_select col sort_col q rows =
     (let kept = filter (\<lambda>r. list_all (\<lambda>(c, v). col c r = Some v) (eq_filters q)) rows in
      case order_by q of
        None \<Rightarrow> kept
      | Some (c, ascending) \<Rightarrow>
          if ascending then sort_key (sort_col c) kept
          else sort_key (\<lambda>r. - sort_col c r) kept)"

definition project_column :: "string \<Rightarrow> project \<Rightarrow> jsstring option" where
  "project_column c p =
     (if c = ''id'' then Some (project_id p)
      else if c = ''title'' then Some (title p)
      else if c = ''description'' then Some (description p)
      else if c = ''status'' then Some (status p)
      else if c = ''hirer_id'' then Some (hirer_id p)
      else None)"

definition project_sort_column :: "string \<Rightarrow> project \<Rightarrow> int" where
  "project_sort_column c p = (if c = ''created_at'' then project_created_at p else 0)"

definition message_column :: "string \<Rightarrow> message \<Rightarrow> jsstring option" where
  "message_column c m =
     (if c = ''id'' then Some (message_id m)
      else if c = ''conversation_id'' then Some (conversation_id m)
      else if c = ''sender_id'' then Some (sender_id m)
      else if c = ''content'' then Some (content m)
      else None)"

definition message_sort_column :: "string \<Rightarrow> message \<Rightarrow> int" where
  "message_sort_column c m = (if c = ''created_at'' then created_at m else 0)"

text \<open>
  Modelled from the spec: the \<open>project_applications\<close> table and its uniqueness
  constraint, which live in the backend and not in the source files. "An application
  is unique per (project, coder) pair: duplicate submission is rejected by the backend's
  uniqueness constraint" (spec, section 3), with the uniqueness-violation code
  \<open>23505\<close>; an insert that is not rejected adds its row.
\<close>

record application_row =
  app_project_id :: jsstring
  app_coder_id :: jsstring
  app_message :: jsstring

definition insert_application ::
  "application_row \<Rightarrow> application_row list \<Rightarrow> unit response \<times> application_row list" where
  "insert_application r tbl =
     (if list_ex (\<lambda>a. app_project_id a = app_project_id r \<and> app_coder_id a = app_coder_id r) tbl
      then (Failure \<lparr>code = js ''23505'',
                     message = js ''duplicate key value violates unique constraint''\<rparr>, tbl)
      else (Success (), tbl @ [r]))"

section \<open>Example data\<close>

text \<open>
  Concrete backends, users, rows and page states at which the theorems below are
  evaluated. \<open>ok_backend d\<close> answers every request with the data \<open>d\<close> and
  \<open>failing_backend\<close> with a connection error, both counting the requests they have
  served; \<open>offline_backend\<close> fails without a state of its own; \<open>read_backend\<close>
  answers a read over the rows it holds and refuses writes; \<open>applications_backend\<close>
  is the \<open>project_applications\<close> table behind the insert requests.
\<close>

definition ok_backend :: "'a \<Rightarrow> (nat, 'a) backend" where
  "ok_backend d db rq = (Success d, Suc db)"

definition connection_error :: pg_error where
  "connection_error = \<lparr>code = js ''08006'', message = js ''connection failure''\<rparr>"

definition failing_backend :: "(nat, 'a) backend" where
  "failing_backend db rq = (Failure connection_error, Suc db)"

definition offline_backend :: "('db, 'a) backend" where
  "offline_backend db rq = (Failure connection_error, db)"

definition alice :: auth_user where
  "alice = \<lparr>auth_id = js ''u1''\<rparr>"

definition bob_info :: sender_info where
  "bob_info = \<lparr>full_name = js ''Bob'', avatar_url = None\<rparr>"

definition alice_profile :: participant_profile where
  "alice_profile = \<lparr>full_name = js ''Alice'', avatar_url = None, role = js ''coder''\<rparr>"

definition bob_profile :: participant_profile where
  "bob_profile = \<lparr>full_name = js ''Bob'', avatar_url = None, role = js ''hirer''\<rparr>"

definition early_message :: message where
  "early_message =
     \<lparr>message_id = js ''m1'', conversation_id = js ''c1'', sender_id = js ''u2'',
      content = js ''hello'', created_at = 1, sender = bob_info\<rparr>"

definition late_message :: message where
  "late_message =
     \<lparr>message_id = js ''m2'', conversation_id = js ''c1'', sender_id = js ''u2'',
      content = js ''again'', created_at = 2, sender = bob_info\<rparr>"

definition early_row :: message_row where
  "early_row =
     \<lparr>message_id = js ''m1'', conversation_id = js ''c1'', sender_id = js ''u2'',
      content = js ''hello'', created_at = 1\<rparr>"

definition late_row :: message_row where
  "late_row =
     \<lparr>message_id = js ''m2'', conversation_id = js ''c1'', sender_id = js ''u2'',
      content = js ''again'', created_at = 2\<rparr>"

definition open_page :: messages_page where
  "open_page =
     \<lparr>conversations = [], selectedConversation = Some (js ''c1''),
      messages = [late_message], newMessage = js ''hi'', loading = False\<rparr>"

definition blank_page :: messages_page where
  "blank_page =
     \<lparr>conversations = [], selectedConversation = Some (js ''c1''),
      messages = [late_message], newMessage = js '' '', loading = False\<rparr>"

definition alice_conversation :: conversation where
  "alice_conversation =
     \<lparr>conversation_key = js ''c1'', updated_at = 5,
      conversation_participants =
        Some [\<lparr>user_id = js ''u1'', profiles = alice_profile\<rparr>,
              \<lparr>user_id = js ''u2'', profiles = bob_profile\<rparr>],
      preview_messages = []\<rparr>"

definition other_conversation :: conversation where
  "other_conversation =
     \<lparr>conversation_key = js ''c2'', updated_at = 4,
      conversation_participants =
        Some [\<lparr>user_id = js ''u2'', profiles = bob_profile\<rparr>],
      preview_messages = []\<rparr>"

definition loaded_page :: messages_page where
  "loaded_page =
     \<lparr>conversations = [], selectedConversation = Some (js ''c1''),
      messages = [early_message, late_message], newMessage = [], loading = False\<rparr>"

definition read_backend ::
  "(string \<Rightarrow> 'row \<Rightarrow> jsstring option) \<Rightarrow> (string \<Rightarrow> 'row \<Rightarrow> int)
     \<Rightarrow> ('row list, 'row list) backend" where
  "read_backend col sort_col rows rq =
     (case rq of
        Select q \<Rightarrow> (Success (run_select col sort_col q rows), rows)
      | Insert t r \<Rightarrow>
          (Failure \<lparr>code = js ''42501'', message = js ''permission denied''\<rparr>, rows))"

definition open_project :: project where
  "open_project =
     \<lparr>project_id = js ''p1'', title = js ''Site'', description = js ''Build a site'',
      status = js ''open'', hirer_id = js ''u2'', project_created_at = 3,
      budget_min = None, budget_max = Some 500, timeline = None\<rparr>"

definition running_project :: project where
  "running_project =
     \<lparr>project_id = js ''p2'', title = js ''App'', description = js ''Build an app'',
      status = js ''in_progress'', hirer_id = js ''u2'', project_created_at = 4,
      budget_min = None, budget_max = None, timeline = None\<rparr>"

definition alice_application :: application_row where
  "alice_application =
     \<lparr>app_project_id = js ''p1'', app_coder_id = js ''u1'',
      app_message = js ''I would like to apply for this project.''\<rparr>"

definition applications_backend :: "(application_row list, unit) backend" where
  "applications_backend tbl rq =
     (case rq of
        Insert t r \<Rightarrow>
          (case (map_of r ''project_id'', map_of r ''coder_id'', map_of r ''message'') of
             (Some p, Some c, Some m) \<Rightarrow>
               insert_application \<lparr>app_project_id = p, app_coder_id = c, app_message = m\<rparr> tbl
           | _ \<Rightarrow> (Failure \<lparr>code = js ''23502'', message = js ''null value in column''\<rparr>, tbl))
      | Select q \<Rightarrow>
          (Failure \<lparr>code = js ''42501'', message = js ''permission denied''\<rparr>, tbl))"

definition carol :: profile where
  "carol =
     \<lparr>profile_id = js ''u3'', profile_full_name = js ''carol'', bio = None,
      location = Some (js ''oslo''), xp = 10, followers_count = 0\<rparr>"

definition dave :: profile where
  "dave =
     \<lparr>profile_id = js ''u4'', profile_full_name = js ''dave'', bio = Some (js ''rust''),
      location = None, xp = 7, followers_count = 2\<rparr>"

definition crew :: team where
  "crew =
     \<lparr>team_id = js ''t1'', team_name = js ''crew'', team_description = None,
      team_created_at = 1\<rparr>"

definition searching_page :: browse_page where
  "searching_page =
     \<lparr>coders = [carol, dave], teams = [crew], browse_loading = False,
      searchTerm = js ''oslo'', skillFilter = js ''all''\<rparr>"

section \<open>Lemmas about the handlers and the backend\<close>

lemma trim_whitespace_only:
  "list_all is_js_whitespace s \<Longrightarrow> trim s = []"
  by (auto simp: trim_def list_all_iff dest: set_dropWhileD)

lemma is_participant_iff:
  "is_participant u c \<longleftrightarrow>
     (\<exists>ps. conversation_participants c = Some ps \<and> auth_id u \<in> user_id ` set ps)"
  by (cases "conversation_participants c")
     (auto simp: is_participant_def list_ex_iff intro: rev_image_eqI)

lemma run_select_keeps_filters:
  "r \<in> set (run_select col sort_col q rows) \<Longrightarrow>
     r \<in> set rows \<and> list_all (\<lambda>(c, v). col c r = Some v) (eq_filters q)"
  by (auto simp: run_select_def Let_def split: option.splits if_splits)

lemma js_open_distinct:
  "js ''open'' \<noteq> js ''in_progress''" "js ''open'' \<noteq> js ''completed''"
  "js ''open'' \<noteq> js ''cancelled''"
  by (simp_all add: js_def)

lemma fetchMessage_failure:
  "supabase db (Select (fetchMessage_query mid)) = (Failure e, db') \<Longrightarrow>
     fetchMessage supabase mid db s =
       (db', s, [Request (Select (fetchMessage_query mid)),
                 ConsoleError ''Error fetching message:'' e])"
  by (simp add: fetchMessage_def)

lemma fetchConversations_failure:
  "supabase db (Select fetchConversations_query) = (Failure e, db') \<Longrightarrow>
     fetchConversations (Some u) supabase db s =
       (db', s, [Request (Select fetchConversations_query),
                 ConsoleError ''Error fetching conversations:'' e,
                 ToastError ''Failed to load conversations''])"
  by (simp add: fetchConversations_def)

lemma loadMessages_failure:
  "supabase db (Select (loadMessages_query cid)) = (Failure e, db') \<Longrightarrow>
     loadMessages supabase cid db s =
       (db', s, [Request (Select (loadMessages_query cid)),
                 ConsoleError ''Error loading messages:'' e,
                 ToastError ''Failed to load messages''])"
  by (simp add: loadMessages_def)

lemma sendMessage_failure:
  "truthy (trim (newMessage s)) \<Longrightarrow> selectedConversation s = Some conv \<Longrightarrow> truthy conv \<Longrightarrow>
   supabase db (sendMessage_request conv (auth_id u) (newMessage s)) = (Failure e, db') \<Longrightarrow>
     sendMessage (Some u) supabase db s =
       (db', s, [Request (sendMessage_request conv (auth_id u) (newMessage s)),
                 ConsoleError ''Error sending message:'' e,
                 ToastError ''Failed to send message''])"
  by (simp add: sendMessage_def truthy_opt_def)

lemma fetchCoders_failure:
  "supabase db (Select fetchCoders_query) = (Failure e, db') \<Longrightarrow>
     fetchCoders supabase db s =
       (db', s, [Request (Select fetchCoders_query), ConsoleError ''Error fetching coders:'' e])"
  by (simp add: fetchCoders_def)

lemma fetchTeams_failure:
  "supabase db (Select fetchTeams_query) = (Failure e, db') \<Longrightarrow>
     fetchTeams supabase db s =
       (db', s\<lparr>browse_loading := False\<rparr>,
        [Request (Select fetchTeams_query), ConsoleError ''Error fetching teams:'' e])"
  by (simp add: fetchTeams_def)

lemma handleFollow_failure:
  "supabase_insert db (handleFollow_request (auth_id u) pid) = (Failure e, db') \<Longrightarrow>
     handleFollow (Some u) supabase_insert supabase pid db s =
       (db', s, [Request (handleFollow_request (auth_id u) pid),
                 ConsoleError ''Error following user:'' e])"
  by (simp add: handleFollow_def)

lemma fetchProjects_failure:
  "supabase db (Select fetchProjects_query) = (Failure e, db') \<Longrightarrow>
     fetchProjects supabase db s =
       (db', s, [Request (Select fetchProjects_query),
                 ConsoleError ''Error fetching projects:'' e,
                 ToastError ''Failed to load projects''])"
  by (simp add: fetchProjects_def)

lemma fetchMyProjects_failure:
  "supabase db (Select (fetchMyProjects_query (auth_id u))) = (Failure e, db') \<Longrightarrow>
     fetchMyProjects (Some u) supabase db s =
       (db', s, [Request (Select (fetchMyProjects_query (auth_id u))),
                 ConsoleError ''Error fetching my projects:'' e])"
  by (simp add: fetchMyProjects_def)

lemma handleApplyToProject_failure:
  "supabase_insert db (handleApplyToProject_request pid (auth_id u)) = (Failure e, db') \<Longrightarrow>
     handleApplyToProject (Some u) supabase_insert supabase pid db s =
       (db', s,
        [Request (handleApplyToProject_request pid (auth_id u)),
         ToastError (if code e = js ''23505'' then ''You have already applied to this project''
                     else ''Failed to apply to project'')])"
  by (simp add: handleApplyToProject_def)

lemma fetchMyApplications_failure:
  "supabase db (Select (fetchMyApplications_query (auth_id u))) = (Failure e, db') \<Longrightarrow>
     fetchMyApplications (Some u) supabase db s =
       (db', s, [Request (Select (fetchMyApplications_query (auth_id u))),
                 ConsoleError ''Error fetching applications:'' e])"
  by (simp add: fetchMyApplications_def)

lemma fetchProjectApplications_failure:
  "supabase db (Select (fetchProjectApplications_query pid)) = (Failure e, db') \<Longrightarrow>
     fetchProjectApplications supabase pid db =
       (db', [], [Request (Select (fetchProjectApplications_query pid)),
                  ConsoleError ''Error fetching project applications:'' e])"
  by (simp add: fetchProjectApplications_def)

lemma run_select_ascending_sorted:
  "order_by q = Some (c, True) \<Longrightarrow>
     sorted (map (sort_col c) (run_select col sort_col q rows))"
  by (simp add: run_select_def Let_def)

lemma message_sort_column_created_at: "message_sort_column ''created_at'' = created_at"
  by (rule ext) (simp add: message_sort_column_def)

section \<open>The claims\<close>

subsection \<open>C1: the conversation list is the membership filter of the returned rows\<close>

text \<open>
  C1. For every list of conversation rows the backend returns to \<open>fetchConversations\<close>
  and every signed-in user, a conversation is in the list that \<open>fetchConversations\<close>
  stores exactly when it is one of the returned rows and the user's id is among the
  \<open>user_id\<close>s of its participants; the page shows the stored list.
\<close>

theorem fetchConversations_membership:
  assumes "supabase db (Select fetchConversations_query) = (Success rows, db')"
    and "fetchConversations (Some u) supabase db s = (db2, s', es)"
  shows "(c \<in> set (conversations s') \<longleftrightarrow>
            c \<in> set rows \<and>
            (\<exists>ps. conversation_participants c = Some ps \<and> auth_id u \<in> user_id ` set ps))
         \<and> shown_conversations (Some u) s' = conversations s'"
proof -
  from assms have s': "s' = s\<lparr>conversations := filter (is_participant u) rows, loading := False\<rparr>"
    by (simp add: fetchConversations_def)
  show ?thesis
    by (simp add: s' shown_conversations_def is_participant_iff)
qed

text \<open>
  C1 at a concrete input: of two returned conversations, the one with the user among its
  participants is stored and the other is not.
\<close>

theorem fetchConversations_membership_witness:
  "alice_conversation \<in> set (conversations (fst (snd
      (fetchConversations (Some alice) (ok_backend [alice_conversation, other_conversation])
         0 initial_messages_page))))
   \<and> other_conversation \<notin> set (conversations (fst (snd
      (fetchConversations (Some alice) (ok_backend [alice_conversation, other_conversation])
         0 initial_messages_page))))"
proof -
  let ?r = "fetchConversations (Some alice) (ok_backend [alice_conversation, other_conversation])
              0 initial_messages_page"
  have a: "ok_backend [alice_conversation, other_conversation] 0 (Select fetchConversations_query)
             = (Success [alice_conversation, other_conversation], Suc 0)"
    by (simp add: ok_backend_def)
  have b: "?r = (fst ?r, fst (snd ?r), snd (snd ?r))"
    by simp
  have mine: "\<exists>ps. conversation_participants alice_conversation = Some ps
                \<and> auth_id alice \<in> user_id ` set ps"
    by (simp add: alice_conversation_def alice_def)
  have other: "\<not> (\<exists>ps. conversation_participants other_conversation = Some ps
                \<and> auth_id alice \<in> user_id ` set ps)"
    by (simp add: other_conversation_def alice_def js_def)
  from fetchConversations_membership [OF a b, of alice_conversation] mine
  have 1: "alice_conversation \<in> set (conversations (fst (snd ?r)))" by simp
  from fetchConversations_membership [OF a b, of other_conversation] other
  have 2: "other_conversation \<notin> set (conversations (fst (snd ?r)))" by simp
  from 1 2 show ?thesis by simp
qed

subsection \<open>C2: applying to a project, failures and duplicates\<close>

text \<open>
  C2. For a signed-in user, when the insert into \<open>project_applications\<close> fails, the
  handler sends no further request and shows exactly one toast: the "already applied"
  text when the error code is \<open>23505\<close>, the generic text for every other code, and never
  the success toast. Against the table with its uniqueness constraint, an application
  for a (project, coder) pair that is already in the table leaves the table as it was
  and shows the "already applied" text.
\<close>

theorem handleApplyToProject_duplicate:
  "(supabase_insert db (handleApplyToProject_request pid (auth_id u)) = (Failure e, db') \<longrightarrow>
      handleApplyToProject (Some u) supabase_insert supabase pid db s =
        (db', s,
         [Request (handleApplyToProject_request pid (auth_id u)),
          ToastError (if code e = js ''23505'' then ''You have already applied to this project''
                      else ''Failed to apply to project'')]))
   \<and> (list_ex (\<lambda>a. app_project_id a = pid \<and> app_coder_id a = auth_id u) tbl
      \<and> table_insert tbl (handleApplyToProject_request pid (auth_id u)) =
          insert_application
            \<lparr>app_project_id = pid, app_coder_id = auth_id u,
             app_message = js ''I would like to apply for this project.''\<rparr> tbl \<longrightarrow>
      handleApplyToProject (Some u) table_insert supabase1 pid tbl s =
        (tbl, s,
         [Request (handleApplyToProject_request pid (auth_id u)),
          ToastError ''You have already applied to this project'']))"
proof -
  have dup: "insert_application
            \<lparr>app_project_id = pid, app_coder_id = auth_id u,
             app_message = js ''I would like to apply for this project.''\<rparr> tbl =
          (Failure \<lparr>code = js ''23505'',
                    message = js ''duplicate key value violates unique constraint''\<rparr>, tbl)"
    if "list_ex (\<lambda>a. app_project_id a = pid \<and> app_coder_id a = auth_id u) tbl"
    using that by (simp add: insert_application_def)
  show ?thesis
    using handleApplyToProject_failure [of supabase_insert db pid u e db' supabase s]
      handleApplyToProject_failure [of table_insert tbl pid u
        "\<lparr>code = js ''23505'', message = js ''duplicate key value violates unique constraint''\<rparr>"
        tbl supabase1 s]
      dup
    by auto
qed

text \<open>
  C2 at a concrete input: a duplicate application against the table, and a connection
  failure.
\<close>

theorem handleApplyToProject_duplicate_witness:
  "handleApplyToProject (Some alice) applications_backend offline_backend (js ''p1'')
     [alice_application] initial_projects_page =
     ([alice_application], initial_projects_page,
      [Request (handleApplyToProject_request (js ''p1'') (auth_id alice)),
       ToastError ''You have already applied to this project''])
   \<and> handleApplyToProject (Some alice) failing_backend failing_backend (js ''p1'') 0
        initial_projects_page =
     (1, initial_projects_page,
      [Request (handleApplyToProject_request (js ''p1'') (auth_id alice)),
       ToastError ''Failed to apply to project''])"
proof -
  have d: "list_ex (\<lambda>a. app_project_id a = js ''p1'' \<and> app_coder_id a = auth_id alice)
             [alice_application]"
    by (simp add: alice_application_def alice_def)
  have t: "applications_backend [alice_application]
             (handleApplyToProject_request (js ''p1'') (auth_id alice)) =
           insert_application
            \<lparr>app_project_id = js ''p1'', app_coder_id = auth_id alice,
             app_message = js ''I would like to apply for this project.''\<rparr> [alice_application]"
    by (simp add: applications_backend_def handleApplyToProject_request_def)
  have f: "(failing_backend :: (nat, unit) backend) 0
             (handleApplyToProject_request (js ''p1'') (auth_id alice))
             = (Failure connection_error, 1)"
    by (simp add: failing_backend_def)
  have c: "code connection_error \<noteq> js ''23505''"
    by (simp add: connection_error_def js_def)
  from d t f c handleApplyToProject_duplicate
    [of failing_backend 0 "js ''p1''" alice connection_error 1 failing_backend
        initial_projects_page "[alice_application]" applications_backend offline_backend]
  show ?thesis by simp
qed

subsection \<open>C3: a change notification on the messages table\<close>

text \<open>
  C3, as the code has it. When the inserted row's \<open>conversation_id\<close> is the open
  conversation, the callback re-fetches that one row by id with the sender's display
  fields (\<open>.single()\<close>); if the re-fetch succeeds, the fetched row is appended to the
  message list whether or not it is already there (its number of occurrences grows by
  one); if the re-fetch fails, the error is logged to the console and the list is
  unchanged. When the row belongs to another conversation, or none is open, nothing is
  sent and the state, so also the visible list, is unchanged.
\<close>

theorem messagesChannel_handler_append:
  "(Some (conversation_id payload) = selectedConversation s \<longrightarrow>
      (supabase db (Select (fetchMessage_query (message_id payload))) = (Success d, db') \<longrightarrow>
         messagesChannel_handler supabase payload db s =
           (db', s\<lparr>messages := messages s @ [d]\<rparr>,
            [Request (Select (fetchMessage_query (message_id payload)))])
         \<and> count_list (messages s @ [d]) d = Suc (count_list (messages s) d))
      \<and> (supabase db (Select (fetchMessage_query (message_id payload))) = (Failure e, db') \<longrightarrow>
         messagesChannel_handler supabase payload db s =
           (db', s,
            [Request (Select (fetchMessage_query (message_id payload))),
             ConsoleError ''Error fetching message:'' e])))
   \<and> (Some (conversation_id payload) \<noteq> selectedConversation s \<longrightarrow>
        messagesChannel_handler supabase payload db s = (db, s, []))
   \<and> fetchMessage_query mid =
        \<lparr>table = ''messages'',
         columns = ''*, sender:profiles!messages_sender_id_fkey(full_name, avatar_url)'',
         eq_filters = [(''id'', mid)], order_by = None, single_row = True\<rparr>"
  by (simp add: messagesChannel_handler_def fetchMessage_def fetchMessage_query_def
      message_columns_def)

text \<open>
  C3 at concrete inputs: a successful re-fetch of a row that is already displayed, a
  failed re-fetch, and a notification while no conversation is open.
\<close>

theorem messagesChannel_handler_append_witness:
  "messagesChannel_handler (ok_backend late_message) late_row 0 open_page =
     (1, open_page\<lparr>messages := [late_message, late_message]\<rparr>,
      [Request (Select (fetchMessage_query (js ''m2'')))])
   \<and> messagesChannel_handler failing_backend late_row 0 open_page =
     (1, open_page,
      [Request (Select (fetchMessage_query (js ''m2''))),
       ConsoleError ''Error fetching message:'' connection_error])
   \<and> messagesChannel_handler (ok_backend late_message) late_row 0
        (open_page\<lparr>selectedConversation := None\<rparr>) =
     (0, open_page\<lparr>selectedConversation := None\<rparr>, [])"
proof -
  have m: "Some (conversation_id late_row) = selectedConversation open_page"
    by (simp add: late_row_def open_page_def)
  have n: "Some (conversation_id late_row)
             \<noteq> selectedConversation (open_page\<lparr>selectedConversation := None\<rparr>)"
    by simp
  have ok: "ok_backend late_message 0 (Select (fetchMessage_query (message_id late_row)))
              = (Success late_message, 1)"
    by (simp add: ok_backend_def)
  have bad: "(failing_backend :: (nat, message) backend) 0
               (Select (fetchMessage_query (message_id late_row)))
              = (Failure connection_error, 1)"
    by (simp add: failing_backend_def)
  from m ok messagesChannel_handler_append
         [of late_row open_page "ok_backend late_message" 0 late_message 1 connection_error]
  have 1: "messagesChannel_handler (ok_backend late_message) late_row 0 open_page =
     (1, open_page\<lparr>messages := [late_message, late_message]\<rparr>,
      [Request (Select (fetchMessage_query (js ''m2'')))])"
    by (simp add: open_page_def late_row_def)
  from m bad messagesChannel_handler_append
         [of late_row open_page failing_backend 0 late_message 1 connection_error]
  have 2: "messagesChannel_handler failing_backend late_row 0 open_page =
     (1, open_page,
      [Request (Select (fetchMessage_query (js ''m2''))),
       ConsoleError ''Error fetching message:'' connection_error])"
    by (simp add: late_row_def)
  from n messagesChannel_handler_append
         [of late_row "open_page\<lparr>selectedConversation := None\<rparr>"
             "ok_backend late_message" 0 late_message 1 connection_error]
  have 3: "messagesChannel_handler (ok_backend late_message) late_row 0
        (open_page\<lparr>selectedConversation := None\<rparr>) =
     (0, open_page\<lparr>selectedConversation := None\<rparr>, [])"
    by simp
  from 1 2 3 show ?thesis by simp
qed

text \<open>
  C3 as stated fails: a notification for the open conversation whose re-fetch fails
  appends nothing.
\<close>

theorem messagesChannel_handler_refetch_failure_cex:
  "Some (conversation_id early_row) = selectedConversation open_page
   \<and> messagesChannel_handler failing_backend early_row 0 open_page =
       (1, open_page,
        [Request (Select (fetchMessage_query (js ''m1''))),
         ConsoleError ''Error fetching message:'' connection_error])
   \<and> visible_messages (Some alice) open_page = [late_message]"
  by (simp add: messagesChannel_handler_def fetchMessage_def failing_backend_def
      early_row_def open_page_def visible_messages_def truthy_opt_def truthy_def js_def)

subsection \<open>C4: sending a blank message\<close>

text \<open>
  C4. When the input consists of whitespace only (the empty input included),
  \<open>sendMessage\<close> sends no request and leaves the backend and the whole state of the
  page unchanged, whoever is signed in and whichever conversation is selected.
\<close>

theorem sendMessage_blank_noop:
  "list_all is_js_whitespace (newMessage s) \<Longrightarrow>
     sendMessage user supabase db s = (db, s, [])"
  by (simp add: sendMessage_def truthy_def trim_whitespace_only)

text \<open>
  C4 at a concrete input: the input is one space.
\<close>

theorem sendMessage_blank_noop_witness:
  "list_all is_js_whitespace (newMessage blank_page) \<and>
   sendMessage (Some alice) (ok_backend ()) 0 blank_page = (0, blank_page, [])"
proof -
  have h: "list_all is_js_whitespace (newMessage blank_page)"
    by (simp add: blank_page_def js_def is_js_whitespace_def)
  from sendMessage_blank_noop [OF h] h show ?thesis by simp
qed

subsection \<open>C5: selecting a conversation\<close>

text \<open>
  C5, as the code has it. Selecting a conversation changes the selection and sends one
  request for the messages of that conversation. When the request succeeds, the message
  list becomes exactly the rows fetched, whatever was displayed before. When it fails,
  the previous list stays in place under the new selection, and the failure is logged
  and shown as an error toast.
\<close>

theorem selectConversation_replaces:
  "(supabase db (Select (loadMessages_query cid)) = (Success d, db') \<longrightarrow>
      selectConversation supabase cid db s =
        (db', s\<lparr>selectedConversation := Some cid, messages := d\<rparr>,
         [Request (Select (loadMessages_query cid))])
      \<and> (truthy cid \<longrightarrow>
           visible_messages (Some u) (s\<lparr>selectedConversation := Some cid, messages := d\<rparr>) = d))
   \<and> (supabase db (Select (loadMessages_query cid)) = (Failure e, db') \<longrightarrow>
      selectConversation supabase cid db s =
        (db', s\<lparr>selectedConversation := Some cid\<rparr>,
         [Request (Select (loadMessages_query cid)),
          ConsoleError ''Error loading messages:'' e,
          ToastError ''Failed to load messages''])
      \<and> (truthy cid \<longrightarrow>
           visible_messages (Some u) (s\<lparr>selectedConversation := Some cid\<rparr>) = messages s))
   \<and> table (loadMessages_query cid) = ''messages''
   \<and> eq_filters (loadMessages_query cid) = [(''conversation_id'', cid)]"
  by (simp add: selectConversation_def loadMessages_def loadMessages_query_def
      visible_messages_def truthy_opt_def)

text \<open>
  C5 at concrete inputs: a successful load and a failed one.
\<close>

theorem selectConversation_replaces_witness:
  "selectConversation (ok_backend [early_message]) (js ''c1'') 0 open_page =
     (1, open_page\<lparr>messages := [early_message]\<rparr>,
      [Request (Select (loadMessages_query (js ''c1'')))])
   \<and> visible_messages (Some alice) (open_page\<lparr>messages := [early_message]\<rparr>) = [early_message]
   \<and> selectConversation failing_backend (js ''c2'') 0 open_page =
     (1, open_page\<lparr>selectedConversation := Some (js ''c2'')\<rparr>,
      [Request (Select (loadMessages_query (js ''c2''))),
       ConsoleError ''Error loading messages:'' connection_error,
       ToastError ''Failed to load messages''])"
proof -
  have ok: "ok_backend [early_message] 0 (Select (loadMessages_query (js ''c1'')))
              = (Success [early_message], 1)"
    by (simp add: ok_backend_def)
  have bad: "(failing_backend :: (nat, message list) backend) 0
               (Select (loadMessages_query (js ''c2''))) = (Failure connection_error, 1)"
    by (simp add: failing_backend_def)
  have t: "truthy (js ''c1'')"
    by (simp add: truthy_def js_def)
  from ok t selectConversation_replaces
    [of "ok_backend [early_message]" 0 "js ''c1''" "[early_message]" 1 open_page alice
        connection_error]
  have 1: "selectConversation (ok_backend [early_message]) (js ''c1'') 0 open_page =
     (1, open_page\<lparr>messages := [early_message]\<rparr>,
      [Request (Select (loadMessages_query (js ''c1'')))])
   \<and> visible_messages (Some alice) (open_page\<lparr>messages := [early_message]\<rparr>) = [early_message]"
    by (simp add: open_page_def)
  from bad selectConversation_replaces
    [of failing_backend 0 "js ''c2''" "[early_message]" 1 open_page alice connection_error]
  have 2: "selectConversation failing_backend (js ''c2'') 0 open_page =
     (1, open_page\<lparr>selectedConversation := Some (js ''c2'')\<rparr>,
      [Request (Select (loadMessages_query (js ''c2''))),
       ConsoleError ''Error loading messages:'' connection_error,
       ToastError ''Failed to load messages''])"
    by simp
  from 1 2 show ?thesis by simp
qed

text \<open>
  C5 as stated fails: after a failed load for conversation \<open>c2\<close> the page still shows
  the message of conversation \<open>c1\<close>.
\<close>

theorem selectConversation_stale_list_cex:
  "visible_messages (Some alice)
     (fst (snd (selectConversation failing_backend (js ''c2'') 0 open_page))) = [late_message]
   \<and> selectedConversation
       (fst (snd (selectConversation failing_backend (js ''c2'') 0 open_page))) = Some (js ''c2'')
   \<and> conversation_id late_message = js ''c1''
   \<and> js ''c1'' \<noteq> js ''c2''"
  by (simp add: selectConversation_def loadMessages_def failing_backend_def open_page_def
      visible_messages_def truthy_opt_def truthy_def late_message_def js_def)

subsection \<open>C6: the order of the message list\<close>

text \<open>
  C6, as the code has it. \<open>loadMessages\<close> asks for ascending \<open>created_at\<close>, so the
  list it stores is sorted by \<open>created_at\<close> when the backend answers the query as asked.
  A realtime append puts the fetched row at the end without reordering: afterwards the
  list is sorted exactly when it was sorted before and no displayed message is newer
  than the appended row.
\<close>

theorem message_order:
  "order_by (loadMessages_query cid) = Some (''created_at'', True)
   \<and> (supabase db (Select (loadMessages_query cid)) =
         (Success (run_select message_column message_sort_column (loadMessages_query cid) rows),
          db') \<longrightarrow>
       sorted (map created_at (messages (fst (snd (loadMessages supabase cid db s))))))
   \<and> (supabase1 db (Select (fetchMessage_query mid)) = (Success d, db') \<longrightarrow>
       messages (fst (snd (fetchMessage supabase1 mid db s))) = messages s @ [d]
       \<and> (sorted (map created_at (messages (fst (snd (fetchMessage supabase1 mid db s)))))
            \<longleftrightarrow> sorted (map created_at (messages s))
                \<and> (\<forall>m \<in> set (messages s). created_at m \<le> created_at d)))"
proof -
  have 1: "order_by (loadMessages_query cid) = Some (''created_at'', True)"
    by (simp add: loadMessages_query_def)
  have 2: "sorted (map created_at
             (run_select message_column message_sort_column (loadMessages_query cid) rows))"
    using run_select_ascending_sorted [OF 1, of message_sort_column message_column rows]
    by (simp add: message_sort_column_created_at)
  have 3: "supabase db (Select (loadMessages_query cid)) =
         (Success (run_select message_column message_sort_column (loadMessages_query cid) rows),
          db') \<Longrightarrow>
       sorted (map created_at (messages (fst (snd (loadMessages supabase cid db s)))))"
    using 2 by (simp add: loadMessages_def)
  have 4: "supabase1 db (Select (fetchMessage_query mid)) = (Success d, db') \<Longrightarrow>
       messages (fst (snd (fetchMessage supabase1 mid db s))) = messages s @ [d]"
    by (simp add: fetchMessage_def)
  have 5: "sorted (map created_at (messages s @ [d]))
            \<longleftrightarrow> sorted (map created_at (messages s))
                \<and> (\<forall>m \<in> set (messages s). created_at m \<le> created_at d)"
    by (auto simp: sorted_append)
  from 1 3 4 5 show ?thesis by simp
qed

text \<open>
  C6 at concrete inputs: a load from an unordered table, and an append that keeps the
  order.
\<close>

theorem message_order_witness:
  "sorted (map created_at (messages (fst (snd
      (loadMessages (read_backend message_column message_sort_column) (js ''c1'')
         [late_message, early_message] open_page)))))
   \<and> messages (fst (snd (fetchMessage (ok_backend late_message) (js ''m2'') 0 open_page)))
       = [late_message, late_message]
   \<and> sorted (map created_at
       (messages (fst (snd (fetchMessage (ok_backend late_message) (js ''m2'') 0 open_page)))))"
proof -
  have a: "read_backend message_column message_sort_column [late_message, early_message]
             (Select (loadMessages_query (js ''c1''))) =
           (Success (run_select message_column message_sort_column (loadMessages_query (js ''c1''))
                       [late_message, early_message]),
            [late_message, early_message])"
    by (simp add: read_backend_def)
  have b: "ok_backend late_message 0 (Select (fetchMessage_query (js ''m2'')))
             = (Success late_message, 1)"
    by (simp add: ok_backend_def)
  have c: "sorted (map created_at (messages open_page))
             \<and> (\<forall>m \<in> set (messages open_page). created_at m \<le> created_at late_message)"
    by (simp add: open_page_def)
  from a b c message_order
    [of "js ''c1''" "read_backend message_column message_sort_column"
        "[late_message, early_message]" "[late_message, early_message]"
        "[late_message, early_message]" open_page]
  have 1: "sorted (map created_at (messages (fst (snd
      (loadMessages (read_backend message_column message_sort_column) (js ''c1'')
         [late_message, early_message] open_page)))))"
    by simp
  from b c message_order
    [of "js ''c1''" "ok_backend [late_message]" 0 "[]" 1 open_page
        "ok_backend late_message" "js ''m2''" late_message]
  have 2: "messages (fst (snd (fetchMessage (ok_backend late_message) (js ''m2'') 0 open_page)))
       = [late_message, late_message]
   \<and> sorted (map created_at
       (messages (fst (snd (fetchMessage (ok_backend late_message) (js ''m2'') 0 open_page)))))"
    by (simp add: open_page_def)
  from 1 2 show ?thesis by simp
qed

text \<open>
  C6 as stated fails: a notification for a message that is already displayed, but is not
  the newest one, leaves the list out of order.
\<close>

theorem realtime_append_unsorted_cex:
  "sorted (map created_at (messages loaded_page))
   \<and> Some (conversation_id early_row) = selectedConversation loaded_page
   \<and> messages (fst (snd
        (messagesChannel_handler (ok_backend early_message) early_row 0 loaded_page)))
       = [early_message, late_message, early_message]
   \<and> \<not> sorted (map created_at (messages (fst (snd
        (messagesChannel_handler (ok_backend early_message) early_row 0 loaded_page)))))"
  by (simp add: messagesChannel_handler_def fetchMessage_def ok_backend_def loaded_page_def
      early_message_def late_message_def early_row_def)

subsection \<open>C7: what a failed remote call causes\<close>

text \<open>
  C7, as the code has it. A failed remote call ends its handler: the one request is not
  repeated, no success toast is shown and no error value reaches a caller
  (\<open>fetchProjectApplications\<close>, the only handler that returns a value, returns \<open>[]\<close>).
  \<open>fetchConversations\<close>, \<open>loadMessages\<close>, \<open>sendMessage\<close> and \<open>fetchProjects\<close> log
  to the console and show a generic error toast; \<open>fetchMessage\<close>, \<open>fetchCoders\<close>,
  \<open>fetchTeams\<close> (which also clears the loading flag), \<open>handleFollow\<close>,
  \<open>fetchMyProjects\<close>, \<open>fetchMyApplications\<close> and \<open>fetchProjectApplications\<close> only
  log; \<open>handleApplyToProject\<close> only shows a toast, whose text depends on the error code
  \<open>23505\<close>, the one place where the error is inspected.
\<close>

theorem failure_handling:
  "(sb_conversations db (Select fetchConversations_query) = (Failure e, db') \<longrightarrow>
      fetchConversations (Some u) sb_conversations db ms =
        (db', ms, [Request (Select fetchConversations_query),
                   ConsoleError ''Error fetching conversations:'' e,
                   ToastError ''Failed to load conversations'']))
   \<and> (sb_messages db (Select (loadMessages_query cid)) = (Failure e, db') \<longrightarrow>
      loadMessages sb_messages cid db ms =
        (db', ms, [Request (Select (loadMessages_query cid)),
                   ConsoleError ''Error loading messages:'' e,
                   ToastError ''Failed to load messages'']))
   \<and> (truthy (trim (newMessage ms)) \<and> selectedConversation ms = Some conv \<and> truthy conv
      \<and> sb_insert db (sendMessage_request conv (auth_id u) (newMessage ms)) = (Failure e, db') \<longrightarrow>
      sendMessage (Some u) sb_insert db ms =
        (db', ms, [Request (sendMessage_request conv (auth_id u) (newMessage ms)),
                   ConsoleError ''Error sending message:'' e,
                   ToastError ''Failed to send message'']))
   \<and> (sb_projects db (Select fetchProjects_query) = (Failure e, db') \<longrightarrow>
      fetchProjects sb_projects db ps =
        (db', ps, [Request (Select fetchProjects_query),
                   ConsoleError ''Error fetching projects:'' e,
                   ToastError ''Failed to load projects'']))
   \<and> (sb_message db (Select (fetchMessage_query mid)) = (Failure e, db') \<longrightarrow>
      fetchMessage sb_message mid db ms =
        (db', ms, [Request (Select (fetchMessage_query mid)),
                   ConsoleError ''Error fetching message:'' e]))
   \<and> (sb_coders db (Select fetchCoders_query) = (Failure e, db') \<longrightarrow>
      fetchCoders sb_coders db bs =
        (db', bs, [Request (Select fetchCoders_query),
                   ConsoleError ''Error fetching coders:'' e]))
   \<and> (sb_teams db (Select fetchTeams_query) = (Failure e, db') \<longrightarrow>
      fetchTeams sb_teams db bs =
        (db', bs\<lparr>browse_loading := False\<rparr>,
         [Request (Select fetchTeams_query), ConsoleError ''Error fetching teams:'' e]))
   \<and> (sb_insert db (handleFollow_request (auth_id u) pid) = (Failure e, db') \<longrightarrow>
      handleFollow (Some u) sb_insert sb_coders pid db bs =
        (db', bs, [Request (handleFollow_request (auth_id u) pid),
                   ConsoleError ''Error following user:'' e]))
   \<and> (sb_projects db (Select (fetchMyProjects_query (auth_id u))) = (Failure e, db') \<longrightarrow>
      fetchMyProjects (Some u) sb_projects db ps =
        (db', ps, [Request (Select (fetchMyProjects_query (auth_id u))),
                   ConsoleError ''Error fetching my projects:'' e]))
   \<and> (sb_applications db (Select (fetchMyApplications_query (auth_id u))) = (Failure e, db') \<longrightarrow>
      fetchMyApplications (Some u) sb_applications db ps =
        (db', ps, [Request (Select (fetchMyApplications_query (auth_id u))),
                   ConsoleError ''Error fetching applications:'' e]))
   \<and> (sb_applications db (Select (fetchProjectApplications_query pid)) = (Failure e, db') \<longrightarrow>
      fetchProjectApplications sb_applications pid db =
        (db', [], [Request (Select (fetchProjectApplications_query pid)),
                   ConsoleError ''Error fetching project applications:'' e]))
   \<and> (sb_insert db (handleApplyToProject_request pid (auth_id u)) = (Failure e, db') \<longrightarrow>
      handleApplyToProject (Some u) sb_insert sb_projects pid db ps =
        (db', ps,
         [Request (handleApplyToProject_request pid (auth_id u)),
          ToastError (if code e = js ''23505'' then ''You have already applied to this project''
                      else ''Failed to apply to project'')]))"
  using fetchConversations_failure [of sb_conversations db e db' u ms]
    loadMessages_failure [of sb_messages db cid e db' ms]
    sendMessage_failure [of ms conv sb_insert db u e db']
    fetchProjects_failure [of sb_projects db e db' ps]
    fetchMessage_failure [of sb_message db mid e db' ms]
    fetchCoders_failure [of sb_coders db e db' bs]
    fetchTeams_failure [of sb_teams db e db' bs]
    handleFollow_failure [of sb_insert db u pid e db' sb_coders bs]
    fetchMyProjects_failure [of sb_projects db u e db' ps]
    fetchMyApplications_failure [of sb_applications db u e db' ps]
    fetchProjectApplications_failure [of sb_applications db pid e db']
    handleApplyToProject_failure [of sb_insert db pid u e db' sb_projects ps]
  by blast

text \<open>
  C7 at concrete inputs: every handler against a backend whose connection fails.
\<close>

theorem failure_handling_witness:
  "fetchConversations (Some alice) failing_backend 0 open_page =
     (1, open_page, [Request (Select fetchConversations_query),
                     ConsoleError ''Error fetching conversations:'' connection_error,
                     ToastError ''Failed to load conversations''])
   \<and> loadMessages failing_backend (js ''c1'') 0 open_page =
     (1, open_page, [Request (Select (loadMessages_query (js ''c1''))),
                     ConsoleError ''Error loading messages:'' connection_error,
                     ToastError ''Failed to load messages''])
   \<and> sendMessage (Some alice) failing_backend 0 open_page =
     (1, open_page,
      [Request (sendMessage_request (js ''c1'') (auth_id alice) (newMessage open_page)),
       ConsoleError ''Error sending message:'' connection_error,
       ToastError ''Failed to send message''])
   \<and> fetchProjects failing_backend 0 initial_projects_page =
     (1, initial_projects_page, [Request (Select fetchProjects_query),
                                 ConsoleError ''Error fetching projects:'' connection_error,
                                 ToastError ''Failed to load projects''])
   \<and> fetchMessage failing_backend (js ''m1'') 0 open_page =
     (1, open_page, [Request (Select (fetchMessage_query (js ''m1''))),
                     ConsoleError ''Error fetching message:'' connection_error])
   \<and> fetchCoders failing_backend 0 searching_page =
     (1, searching_page, [Request (Select fetchCoders_query),
                          ConsoleError ''Error fetching coders:'' connection_error])
   \<and> fetchTeams failing_backend 0 searching_page =
     (1, searching_page\<lparr>browse_loading := False\<rparr>,
      [Request (Select fetchTeams_query), ConsoleError ''Error fetching teams:'' connection_error])
   \<and> handleFollow (Some alice) failing_backend failing_backend (js ''p1'') 0 searching_page =
     (1, searching_page, [Request (handleFollow_request (auth_id alice) (js ''p1'')),
                          ConsoleError ''Error following user:'' connection_error])
   \<and> fetchMyProjects (Some alice) failing_backend 0 initial_projects_page =
     (1, initial_projects_page, [Request (Select (fetchMyProjects_query (auth_id alice))),
                                 ConsoleError ''Error fetching my projects:'' connection_error])
   \<and> fetchMyApplications (Some alice) failing_backend 0 initial_projects_page =
     (1, initial_projects_page, [Request (Select (fetchMyApplications_query (auth_id alice))),
                                 ConsoleError ''Error fetching applications:'' connection_error])
   \<and> fetchProjectApplications failing_backend (js ''p1'') 0 =
     (1, [], [Request (Select (fetchProjectApplications_query (js ''p1''))),
              ConsoleError ''Error fetching project applications:'' connection_error])
   \<and> handleApplyToProject (Some alice) failing_backend failing_backend (js ''p1'') 0
        initial_projects_page =
     (1, initial_projects_page,
      [Request (handleApplyToProject_request (js ''p1'') (auth_id alice)),
       ToastError ''Failed to apply to project''])"
proof -
  have g: "truthy (trim (newMessage open_page)) \<and> selectedConversation open_page = Some (js ''c1'')
             \<and> truthy (js ''c1'')"
    by (simp add: open_page_def truthy_def trim_def js_def is_js_whitespace_def)
  have c: "code connection_error \<noteq> js ''23505''"
    by (simp add: connection_error_def js_def)
  from g c failure_handling
    [of failing_backend 0 connection_error 1 alice open_page failing_backend "js ''c1''"
        "js ''c1''" failing_backend failing_backend initial_projects_page failing_backend
        "js ''m1''" failing_backend searching_page failing_backend "js ''p1''" failing_backend]
  show ?thesis
    by (simp add: failing_backend_def)
qed

text \<open>
  C7 as stated fails: failures of \<open>fetchMessage\<close>, \<open>fetchCoders\<close> and
  \<open>handleFollow\<close> show no toast, and a failure of \<open>handleApplyToProject\<close> logs
  nothing.
\<close>

theorem failure_without_toast_cex:
  "toasts (snd (snd (fetchMessage failing_backend (js ''m1'') 0 open_page))) = []
   \<and> toasts (snd (snd (fetchCoders failing_backend 0 searching_page))) = []
   \<and> toasts (snd (snd (handleFollow (Some alice) failing_backend failing_backend (js ''u3'') 0
        searching_page))) = []
   \<and> console_logs (snd (snd (handleApplyToProject (Some alice) failing_backend failing_backend
        (js ''p1'') 0 initial_projects_page))) = []"
  by (simp add: toasts_def console_logs_def fetchMessage_def fetchCoders_def handleFollow_def
      handleApplyToProject_def failing_backend_def Let_def)

subsection \<open>C8: the Browse Projects tab shows open projects only\<close>

text \<open>
  C8. \<open>fetchProjects\<close> sends one query on \<open>projects\<close> whose only filter is
  \<open>status = open\<close>. For every dataset, when the backend answers that query over the
  dataset, every project on the Browse Projects tab is a project of the dataset whose
  status is \<open>open\<close>, so none is \<open>in_progress\<close>, \<open>completed\<close> or \<open>cancelled\<close>. A
  failed fetch leaves the list as it was, and the list starts empty.
\<close>

theorem fetchProjects_only_open:
  "table fetchProjects_query = ''projects''
   \<and> eq_filters fetchProjects_query = [(''status'', js ''open'')]
   \<and> (supabase db (Select fetchProjects_query) =
         (Success (run_select project_column project_sort_column fetchProjects_query dataset),
          db') \<longrightarrow>
       requests (snd (snd (fetchProjects supabase db s))) = [Request (Select fetchProjects_query)]
       \<and> (p \<in> set (browse_projects_tab user (fst (snd (fetchProjects supabase db s)))) \<longrightarrow>
            p \<in> set dataset \<and> status p = js ''open'' \<and> status p \<noteq> js ''in_progress''
            \<and> status p \<noteq> js ''completed'' \<and> status p \<noteq> js ''cancelled''))
   \<and> (supabase db (Select fetchProjects_query) = (Failure e, db') \<longrightarrow>
       projects (fst (snd (fetchProjects supabase db s))) = projects s)
   \<and> projects initial_projects_page = []"
proof -
  have q: "table fetchProjects_query = ''projects''
           \<and> eq_filters fetchProjects_query = [(''status'', js ''open'')]"
    by (simp add: fetchProjects_query_def)
  have sel: "p \<in> set dataset \<and> status p = js ''open''"
    if "p \<in> set (run_select project_column project_sort_column fetchProjects_query dataset)"
    using run_select_keeps_filters [OF that] q by (simp add: project_column_def)
  have shown: "p \<in> set dataset \<and> status p = js ''open''"
    if "supabase db (Select fetchProjects_query) =
         (Success (run_select project_column project_sort_column fetchProjects_query dataset), db')"
      and "p \<in> set (browse_projects_tab user (fst (snd (fetchProjects supabase db s))))"
    using that sel
    by (simp add: fetchProjects_def browse_projects_tab_def split: if_splits)
  have rq: "requests (snd (snd (fetchProjects supabase db s)))
              = [Request (Select fetchProjects_query)]"
    if "supabase db (Select fetchProjects_query) =
         (Success (run_select project_column project_sort_column fetchProjects_query dataset), db')"
    using that by (simp add: fetchProjects_def requests_def)
  have kept: "projects (fst (snd (fetchProjects supabase db s))) = projects s"
    if "supabase db (Select fetchProjects_query) = (Failure e, db')"
    using that by (simp add: fetchProjects_def)
  have init: "projects initial_projects_page = []"
    by (simp add: initial_projects_page_def)
  from q shown rq kept init js_open_distinct show ?thesis
    by auto
qed

text \<open>
  C8 at a concrete input: of an open and a running project, only the open one is
  shown.
\<close>

theorem fetchProjects_only_open_witness:
  "browse_projects_tab (Some alice) (fst (snd
     (fetchProjects (read_backend project_column project_sort_column)
        [running_project, open_project] initial_projects_page))) = [open_project]
   \<and> status open_project = js ''open''
   \<and> status running_project = js ''in_progress''"
proof -
  let ?sb = "read_backend project_column project_sort_column"
  let ?ds = "[running_project, open_project]"
  have a: "?sb ?ds (Select fetchProjects_query) =
           (Success (run_select project_column project_sort_column fetchProjects_query ?ds), ?ds)"
    by (simp add: read_backend_def)
  have st: "status open_project = js ''open'' \<and> status running_project = js ''in_progress''"
    by (simp add: open_project_def running_project_def)
  have ev: "browse_projects_tab (Some alice) (fst (snd
     (fetchProjects ?sb ?ds initial_projects_page))) = [open_project]"
    by (simp add: fetchProjects_def read_backend_def run_select_def fetchProjects_query_def
        browse_projects_tab_def project_column_def open_project_def running_project_def
        js_def)
  from a fetchProjects_only_open
    [of ?sb ?ds ?ds ?ds initial_projects_page open_project "Some alice" connection_error]
  have "open_project \<in> set (browse_projects_tab (Some alice) (fst (snd
     (fetchProjects ?sb ?ds initial_projects_page)))) \<longrightarrow> status open_project = js ''open''"
    by simp
  with ev st show ?thesis by simp
qed

subsection \<open>C9: the skill filter does not affect the cards\<close>

text \<open>
  C9. Two states of the Browse page that agree on the coders, the teams, the loading
  flag and the search term show the same coder cards and the same team cards, whatever
  \<open>skillFilter\<close> holds in each.
\<close>

theorem skillFilter_has_no_effect:
  "coders s1 = coders s2 \<Longrightarrow> teams s1 = teams s2 \<Longrightarrow> browse_loading s1 = browse_loading s2 \<Longrightarrow>
   searchTerm s1 = searchTerm s2 \<Longrightarrow>
     displayed_coders toLowerCase s1 = displayed_coders toLowerCase s2
     \<and> displayed_teams toLowerCase s1 = displayed_teams toLowerCase s2"
  by (simp add: displayed_coders_def displayed_teams_def)

text \<open>
  C9 at a concrete input: the same search with the filter on \<open>all\<close> and on
  \<open>python\<close>.
\<close>

theorem skillFilter_has_no_effect_witness:
  "displayed_coders (\<lambda>x. x) (searching_page\<lparr>skillFilter := js ''python''\<rparr>) = [carol]
   \<and> displayed_coders (\<lambda>x. x) searching_page = [carol]
   \<and> displayed_teams (\<lambda>x. x) (searching_page\<lparr>skillFilter := js ''python''\<rparr>)
       = displayed_teams (\<lambda>x. x) searching_page"
proof -
  have ev: "displayed_coders (\<lambda>x. x) searching_page = [carol]"
    by (simp add: displayed_coders_def coder_matches_def searching_page_def carol_def dave_def
        js_def)
  from skillFilter_has_no_effect
    [of "searching_page\<lparr>skillFilter := js ''python''\<rparr>" searching_page "\<lambda>x. x"] ev
  show ?thesis by simp
qed

subsection \<open>C10: when the input field is cleared\<close>

text \<open>
  C10. When \<open>sendMessage\<close> sends its insert (the trimmed input is not empty, a
  conversation is selected, a user is signed in): on success the input becomes the empty
  string and nothing else changes; on failure the state, the input included, is
  unchanged, the error is logged and the error toast is shown. When the guard stops
  \<open>sendMessage\<close>, nothing is sent and the input is unchanged.
\<close>

theorem sendMessage_clears_input:
  "(truthy (trim (newMessage s)) \<and> selectedConversation s = Some conv \<and> truthy conv \<longrightarrow>
      (supabase db (sendMessage_request conv (auth_id u) (newMessage s)) = (Success x, db') \<longrightarrow>
         sendMessage (Some u) supabase db s =
           (db', s\<lparr>newMessage := []\<rparr>,
            [Request (sendMessage_request conv (auth_id u) (newMessage s))]))
      \<and> (supabase db (sendMessage_request conv (auth_id u) (newMessage s)) = (Failure e, db') \<longrightarrow>
         sendMessage (Some u) supabase db s =
           (db', s,
            [Request (sendMessage_request conv (auth_id u) (newMessage s)),
             ConsoleError ''Error sending message:'' e,
             ToastError ''Failed to send message''])))
   \<and> (\<not> truthy (trim (newMessage s)) \<or> \<not> truthy_opt (selectedConversation s) \<or> user = None \<longrightarrow>
        sendMessage user supabase db s = (db, s, []))"
  by (auto simp: sendMessage_def truthy_opt_def)

text \<open>
  C10 at concrete inputs: a successful insert, a failed one, and a call with nobody
  signed in.
\<close>

theorem sendMessage_clears_input_witness:
  "sendMessage (Some alice) (ok_backend ()) 0 open_page =
     (1, open_page\<lparr>newMessage := []\<rparr>,
      [Request (sendMessage_request (js ''c1'') (js ''u1'') (js ''hi''))])
   \<and> sendMessage (Some alice) failing_backend 0 open_page =
     (1, open_page,
      [Request (sendMessage_request (js ''c1'') (js ''u1'') (js ''hi'')),
       ConsoleError ''Error sending message:'' connection_error,
       ToastError ''Failed to send message''])
   \<and> sendMessage None (ok_backend ()) 0 open_page = (0, open_page, [])"
proof -
  have g: "truthy (trim (newMessage open_page)) \<and> selectedConversation open_page = Some (js ''c1'')
             \<and> truthy (js ''c1'')"
    by (simp add: open_page_def truthy_def trim_def js_def is_js_whitespace_def)
  have ok: "ok_backend () 0 (sendMessage_request (js ''c1'') (auth_id alice) (newMessage open_page))
              = (Success (), 1)"
    by (simp add: ok_backend_def)
  have bad: "(failing_backend :: (nat, unit) backend) 0
               (sendMessage_request (js ''c1'') (auth_id alice) (newMessage open_page))
              = (Failure connection_error, 1)"
    by (simp add: failing_backend_def)
  from g ok sendMessage_clears_input
         [of open_page "js ''c1''" "ok_backend ()" 0 alice "()" 1 connection_error "Some alice"]
  have 1: "sendMessage (Some alice) (ok_backend ()) 0 open_page =
             (1, open_page\<lparr>newMessage := []\<rparr>,
              [Request (sendMessage_request (js ''c1'') (js ''u1'') (js ''hi''))])"
    by (simp add: alice_def open_page_def)
  from g bad sendMessage_clears_input
         [of open_page "js ''c1''" failing_backend 0 alice "()" 1 connection_error "Some alice"]
  have 2: "sendMessage (Some alice) failing_backend 0 open_page =
             (1, open_page,
              [Request (sendMessage_request (js ''c1'') (js ''u1'') (js ''hi'')),
               ConsoleError ''Error sending message:'' connection_error,
               ToastError ''Failed to send message''])"
    by (simp add: alice_def open_page_def)
  from sendMessage_clears_input
         [of open_page "js ''c1''" "ok_backend ()" 0 alice "()" 1 connection_error None]
  have 3: "sendMessage None (ok_backend ()) 0 open_page = (0, open_page, [])"
    by simp
  from 1 2 3 show ?thesis by simp
qed

end
